theory Spec2Isabelle
  imports Complex_Main "HOL-Library.Multiset"
begin

section \<open>Values received from the backend\<close>

text \<open>
  The frontend reads stock records out of a JSON response.  The TypeScript interface
  \<open>Stock\<close> declares every metric as \<open>number\<close>, but at run time a field of a never-analysed
  record is \<open>null\<close> (or missing, which reads as \<open>undefined\<close>).  A numeric field is therefore
  one of three things.  JSON cannot carry \<open>NaN\<close> or an infinity, so a present number is a
  finite double, and every finite double is a rational: numbers are modelled as \<open>rat\<close>,
  on which the subtraction of the comparator and the rounding of \<open>toFixed\<close> are exact.
\<close>

datatype jsnum = Undefined | Null | Num rat

text \<open>JavaScript's \<open>ToBoolean\<close> on such a value: \<open>undefined\<close>, \<open>null\<close> and \<open>0\<close> are falsy.\<close>

fun truthy :: "jsnum \<Rightarrow> bool" where
  "truthy (Num v) = (v \<noteq> 0)"
| "truthy Null = False"
| "truthy Undefined = False"

text \<open>The expression \<open>x || 0\<close>: the left operand when it is truthy, otherwise \<open>0\<close>.\<close>

fun or_zero :: "jsnum \<Rightarrow> rat" where
  "or_zero (Num v) = (if v \<noteq> 0 then v else 0)"
| "or_zero Null = 0"
| "or_zero Undefined = 0"

text \<open>A metric is absent when the field is \<open>null\<close> or \<open>undefined\<close>.\<close>

fun absent :: "jsnum \<Rightarrow> bool" where
  "absent (Num v) = False"
| "absent Null = True"
| "absent Undefined = True"

text \<open>The interface \<open>Stock\<close> of \<open>StockList.tsx\<close> (and \<open>StockDetail\<close>, field for field).\<close>

record Stock =
  symbol :: string
  current_price :: jsnum
  pe_ratio :: jsnum
  roe :: jsnum
  total_score :: jsnum
  analyst_ratings_buy :: jsnum
  analyst_ratings_hold :: jsnum
  analyst_ratings_sell :: jsnum
  analyst_ratings_strong_buy :: jsnum
  analyst_ratings_strong_sell :: jsnum
  rsi :: jsnum
  macd :: jsnum
  volatility :: jsnum
  sentiment_score :: jsnum
  beta :: jsnum

section \<open>Ordering of the portfolio list\<close>

text \<open>
  The comparator handed to \<open>Array.prototype.sort\<close> in \<open>fetchStocks\<close>:
  \<^verbatim>\<open>(a, b) => (b.total_score || 0) - (a.total_score || 0)\<close>.
\<close>

definition compareStocks :: "Stock \<Rightarrow> Stock \<Rightarrow> rat" where
  "compareStocks a b = or_zero (total_score b) - or_zero (total_score a)"

text \<open>
  \<open>Array.prototype.sort\<close> with a comparator: \<open>a\<close> is placed before \<open>b\<close> when the comparator
  is negative, after it when positive, and elements that compare equal keep their relative
  order (the sort is stable since ECMAScript 2019).  For a comparator that is a difference
  of keys this fixes the result uniquely, whatever algorithm the engine runs; the model
  is the stable insertion sort.
\<close>

fun sort_insert :: "('a \<Rightarrow> 'a \<Rightarrow> rat) \<Rightarrow> 'a \<Rightarrow> 'a list \<Rightarrow> 'a list" where
  "sort_insert cmp x [] = [x]"
| "sort_insert cmp x (y # ys) =
     (if cmp x y \<le> 0 then x # y # ys else y # sort_insert cmp x ys)"

fun array_sort :: "('a \<Rightarrow> 'a \<Rightarrow> rat) \<Rightarrow> 'a list \<Rightarrow> 'a list" where
  "array_sort cmp [] = []"
| "array_sort cmp (x # xs) = sort_insert cmp x (array_sort cmp xs)"

text \<open>The sort key the comparator induces: \<open>total_score || 0\<close>.\<close>

definition score_key :: "Stock \<Rightarrow> rat" where
  "score_key s = or_zero (total_score s)"

section \<open>Fixed-point rendering and upper-casing\<close>

text \<open>
  \<open>Number.prototype.toFixed(f)\<close> as ECMA-262 defines it for a finite number below
  \<open>10^21\<close>: a minus sign and the absolute value when the number is negative; the integer \<open>n\<close>
  with \<open>n / 10^f\<close> closest to the number, the larger one on a tie; the decimal digits of
  \<open>n\<close>, padded with zeros on the left to \<open>f + 1\<close> digits, with the point before the last
  \<open>f\<close> digits.  (From \<open>10^21\<close> on JavaScript switches to exponent notation, which is not
  modelled; no property below depends on such a value.)
\<close>

definition digit :: "nat \<Rightarrow> char" where
  "digit d = ''0123456789'' ! d"

text \<open>The decimal digits of a natural number; the fuel \<open>k\<close> bounds the number of digits.\<close>

fun digits_fuel :: "nat \<Rightarrow> nat \<Rightarrow> string" where
  "digits_fuel 0 n = [digit (n mod 10)]"
| "digits_fuel (Suc k) n =
     (if n < 10 then [digit n] else digits_fuel k (n div 10) @ [digit (n mod 10)])"

definition digits :: "nat \<Rightarrow> string" where
  "digits n = digits_fuel n n"

definition toFixed :: "rat \<Rightarrow> nat \<Rightarrow> string" where
  "toFixed x f =
     (let s = (if x < 0 then ''-'' else []);
          y = \<bar>x\<bar>;
          n = nat \<lfloor>y * 10 ^ f + 1 / 2\<rfloor>;
          m = digits n;
          z = replicate (f + 1 - length m) (CHR ''0'') @ m;
          k = length z
      in s @ (if f \<noteq> 0 then take (k - f) z @ ''.'' @ drop (k - f) z else m))"

text \<open>
  The text of the input field is any JavaScript string; it is read here as the sequence of
  its Unicode code points, on which \<open>String.prototype.toUpperCase\<close> works.
\<close>

type_synonym codepoints = "nat list"

text \<open>The code points of a literal written in ASCII.\<close>

definition codes :: "string \<Rightarrow> codepoints" where
  "codes s = map of_char s"

text \<open>Upper-casing on the ASCII range: \<open>a\<close> to \<open>z\<close> move to \<open>A\<close> to \<open>Z\<close>, the rest stays.\<close>

definition ascii_upper :: "nat \<Rightarrow> nat" where
  "ascii_upper c = (if 97 \<le> c \<and> c \<le> 122 then c - 32 else c)"

text \<open>
  \<open>String.prototype.toUpperCase\<close> replaces every code point by its upper-case mapping,
  which can be several code points (U+00DF becomes \<open>SS\<close>).  Below 128 the mapping is
  \<open>ascii_upper\<close>; from 128 on it is the case-mapping table of the Unicode standard, which
  the JavaScript engine supplies and which is a parameter here.
\<close>

definition upper_code :: "(nat \<Rightarrow> codepoints) \<Rightarrow> nat \<Rightarrow> codepoints" where
  "upper_code unicode c = (if c < 128 then [ascii_upper c] else unicode c)"

definition toUpperCase :: "(nat \<Rightarrow> codepoints) \<Rightarrow> codepoints \<Rightarrow> codepoints" where
  "toUpperCase unicode s = concat (map (upper_code unicode) s)"

text \<open>Text without a code point beyond ASCII.\<close>

definition ascii_text :: "codepoints \<Rightarrow> bool" where
  "ascii_text s = list_all (\<lambda>c. c < 128) s"

text \<open>
  The validation contract's "alphanumeric", as far as ASCII goes: digits and letters.
  It is applied to ASCII text only, where no reading of the word differs.
\<close>

definition alnum_code :: "nat \<Rightarrow> bool" where
  "alnum_code c = ((48 \<le> c \<and> c \<le> 57) \<or> (65 \<le> c \<and> c \<le> 90) \<or> (97 \<le> c \<and> c \<le> 122))"

definition ascii_alphanumeric :: "codepoints \<Rightarrow> bool" where
  "ascii_alphanumeric s = list_all alnum_code s"

section \<open>Rendering of a record\<close>

text \<open>The conditional \<open>x ? f(x) : d\<close> on a numeric field.\<close>

fun if_truthy :: "jsnum \<Rightarrow> (rat \<Rightarrow> string) \<Rightarrow> string \<Rightarrow> string" where
  "if_truthy (Num v) f d = (if v \<noteq> 0 then f v else d)"
| "if_truthy Null f d = d"
| "if_truthy Undefined f d = d"

text \<open>
  The table row of \<open>StockList\<close> (desktop view): symbol, price, P/E, ROE and score cells.
\<close>

definition renderRow :: "Stock \<Rightarrow> string list" where
  "renderRow stock =
     [symbol stock,
      if_truthy (current_price stock) (\<lambda>v. ''$'' @ toFixed v 2) ''N/A'',
      if_truthy (pe_ratio stock) (\<lambda>v. toFixed v 2) ''N/A'',
      if_truthy (roe stock) (\<lambda>v. toFixed v 2 @ ''%'') ''N/A'',
      if_truthy (total_score stock) (\<lambda>v. toFixed v 2) ''N/A'']"

text \<open>The card of \<open>renderMobileView\<close>: the same four expressions under their labels.\<close>

definition renderMobileCard :: "Stock \<Rightarrow> (string \<times> string) list" where
  "renderMobileCard stock =
     [(''Price:'', if_truthy (current_price stock) (\<lambda>v. ''$'' @ toFixed v 2) ''N/A''),
      (''P/E Ratio:'', if_truthy (pe_ratio stock) (\<lambda>v. toFixed v 2) ''N/A''),
      (''ROE:'', if_truthy (roe stock) (\<lambda>v. toFixed v 2 @ ''%'') ''N/A''),
      (''Score:'', if_truthy (total_score stock) (\<lambda>v. toFixed v 2) ''N/A'')]"

text \<open>
  The optional call \<open>x?.toFixed(f)\<close>: \<open>undefined\<close> (here \<open>None\<close>) when \<open>x\<close> is \<open>null\<close> or
  \<open>undefined\<close>, the method's result otherwise, also for \<open>0\<close>.
\<close>

fun opt_toFixed :: "jsnum \<Rightarrow> nat \<Rightarrow> string option" where
  "opt_toFixed (Num v) f = Some (toFixed v f)"
| "opt_toFixed Null f = None"
| "opt_toFixed Undefined f = None"

text \<open>\<open>s || d\<close> on an optional string: \<open>undefined\<close> and the empty string are falsy.\<close>

fun or_text :: "string option \<Rightarrow> string \<Rightarrow> string" where
  "or_text None d = d"
| "or_text (Some s) d = (if s = [] then d else s)"

text \<open>React renders \<open>undefined\<close> as nothing.\<close>

fun jsx_text :: "string option \<Rightarrow> string" where
  "jsx_text None = []"
| "jsx_text (Some s) = s"

text \<open>
  The metric rows of \<open>StockDetailView\<close>, label and cell text, in the order of the
  dialog.  (The five analyst-rating rows between ROE and RSI show integer counts and are
  not part of the metric fields.)
\<close>

definition renderDetail :: "Stock \<Rightarrow> (string \<times> string) list" where
  "renderDetail stock =
     [(''Current Price'', ''$'' @ or_text (opt_toFixed (current_price stock) 2) ''N/A''),
      (''P/E Ratio'', or_text (opt_toFixed (pe_ratio stock) 2) ''N/A''),
      (''ROE'', jsx_text (opt_toFixed (roe stock) 2) @ ''%''),
      (''RSI'', or_text (opt_toFixed (rsi stock) 2) ''N/A''),
      (''MACD'', or_text (opt_toFixed (macd stock) 2) ''N/A''),
      (''Volatility'', or_text (opt_toFixed (volatility stock) 3) ''N/A''),
      (''Sentiment Score'', or_text (opt_toFixed (sentiment_score stock) 2) ''N/A''),
      (''Beta'', or_text (opt_toFixed (beta stock) 2) ''N/A''),
      (''Total Score'', or_text (opt_toFixed (total_score stock) 2) ''N/A'')]"

text \<open>\<open>StockDetailView\<close> returns \<open>null\<close> when no stock is selected.\<close>

definition StockDetailView :: "Stock option \<Rightarrow> (string \<times> string) list option" where
  "StockDetailView stock = (case stock of None \<Rightarrow> None | Some s \<Rightarrow> Some (renderDetail s))"

section \<open>The HTTP service\<close>

text \<open>
  The four requests of \<open>stockService\<close>.  The backend is the environment of the frontend:
  a function from the request to the way the promise settles.  An axios error carries its
  message and, when the server answered, the \<open>message\<close> field of the response body.
\<close>

datatype request = GetStocks | PostStock codepoints | PostAnalyze | DeleteStock string

datatype axios_error = AxiosError (err_message: string) (response_message: "string option")

datatype response_data =
    DataArray "Stock list"
  | DataNull
  | DataUndefined
  | DataBool bool
  | DataNumber rat
  | DataString string
  | DataObject "(string \<times> string) list"

datatype settled = Fulfilled response_data | Rejected axios_error

type_synonym backend = "request \<Rightarrow> settled"

text \<open>\<open>Array.isArray\<close>.\<close>

fun isArray :: "response_data \<Rightarrow> bool" where
  "isArray (DataArray xs) = True"
| "isArray _ = False"

text \<open>The elements of a body that is an array.\<close>

fun array_elements :: "response_data \<Rightarrow> Stock list" where
  "array_elements (DataArray xs) = xs"
| "array_elements _ = []"

text \<open>
  Each service function awaits the request, returns \<open>response.data\<close>, and on a rejection
  logs and throws the same error again: the error is the \<open>Inl\<close> result.
\<close>

definition getAllStocks :: "backend \<Rightarrow> axios_error + response_data" where
  "getAllStocks net = (case net GetStocks of Fulfilled d \<Rightarrow> Inr d | Rejected e \<Rightarrow> Inl e)"

definition addStock :: "backend \<Rightarrow> codepoints \<Rightarrow> axios_error + response_data" where
  "addStock net s = (case net (PostStock s) of Fulfilled d \<Rightarrow> Inr d | Rejected e \<Rightarrow> Inl e)"

definition analyzeStocks :: "backend \<Rightarrow> axios_error + response_data" where
  "analyzeStocks net = (case net PostAnalyze of Fulfilled d \<Rightarrow> Inr d | Rejected e \<Rightarrow> Inl e)"

definition removeStock :: "backend \<Rightarrow> string \<Rightarrow> axios_error + response_data" where
  "removeStock net s =
     (case net (DeleteStock s) of Fulfilled d \<Rightarrow> Inr d | Rejected e \<Rightarrow> Inl e)"

section \<open>The stock list component\<close>

text \<open>The six \<open>useState\<close> cells of \<open>StockList\<close>.\<close>

record StockListState =
  stocks :: "Stock list"
  error :: string
  loading :: bool
  selectedStock :: "Stock option"
  detailViewOpen :: bool
  removingSymbol :: "string option"

text \<open>The state at mount, from the initial values of the \<open>useState\<close> calls.\<close>

definition initialStockList :: StockListState where
  "initialStockList =
     \<lparr>stocks = [], error = [], loading = True, selectedStock = None,
      detailViewOpen = False, removingSymbol = None\<rparr>"

text \<open>
  The \<open>try\<close> block of \<open>fetchStocks\<close>: it ends in \<open>Inl\<close> when \<open>getAllStocks\<close> throws, and
  otherwise installs the sorted array, or the sorted empty array when the body is no array.
\<close>

definition fetchStocks_try :: "backend \<Rightarrow> StockListState \<Rightarrow> axios_error + StockListState" where
  "fetchStocks_try net st =
     (let st1 = st\<lparr>loading := True\<rparr>
      in case getAllStocks net of
           Inl e \<Rightarrow> Inl e
         | Inr data \<Rightarrow>
             (let stocksArray = (if isArray data then array_elements data else []);
                  sortedStocks = array_sort compareStocks stocksArray
              in Inr (st1\<lparr>stocks := sortedStocks\<rparr>)))"

text \<open>
  \<open>fetchStocks\<close> with its \<open>catch\<close> (which sets the error message and throws nothing) and
  its \<open>finally\<close>.  The \<open>catch\<close> clause takes every exception, so the result has no error
  component.
\<close>

definition fetchStocks :: "backend \<Rightarrow> StockListState \<Rightarrow> StockListState" where
  "fetchStocks net st =
     (let after = (case fetchStocks_try net st of
                     Inr st2 \<Rightarrow> st2
                   | Inl err \<Rightarrow> st\<lparr>loading := True, error := ''Failed to fetch stocks''\<rparr>)
      in after\<lparr>loading := False\<rparr>)"

definition handleViewDetails :: "StockListState \<Rightarrow> Stock \<Rightarrow> StockListState" where
  "handleViewDetails st stock = st\<lparr>selectedStock := Some stock, detailViewOpen := True\<rparr>"

text \<open>
  \<open>handleRemoveStock\<close> up to its \<open>await\<close>: \<open>setRemovingSymbol(symbol)\<close>, and the request
  is under way.
\<close>

definition handleRemoveStock_begin :: "StockListState \<Rightarrow> string \<Rightarrow> StockListState" where
  "handleRemoveStock_begin st s = st\<lparr>removingSymbol := Some s\<rparr>"

text \<open>
  \<open>handleRemoveStock\<close> from the \<open>await\<close> on.  The handler is a closure of the render in
  which the button was clicked: the \<open>stocks\<close> it filters is the list of that render
  (\<open>captured\<close>), not the list of the state it writes to.  A fulfilled request installs the
  filtered captured list; a rejection sets the error message (the server's, or the
  default when that is missing or empty) and leaves the list alone; \<open>finally\<close> clears
  \<open>removingSymbol\<close>.
\<close>

definition handleRemoveStock_settle ::
  "Stock list \<Rightarrow> string \<Rightarrow> axios_error + response_data \<Rightarrow> StockListState \<Rightarrow> StockListState" where
  "handleRemoveStock_settle captured s result st =
     (let after = (case result of
                     Inr d \<Rightarrow> st\<lparr>stocks := filter (\<lambda>stock. symbol stock \<noteq> s) captured\<rparr>
                   | Inl err \<Rightarrow>
                       st\<lparr>error := or_text (response_message err) ''Failed to remove stock''\<rparr>)
      in after\<lparr>removingSymbol := None\<rparr>)"

text \<open>One whole run of the handler with nothing happening during the request.\<close>

definition handleRemoveStock :: "backend \<Rightarrow> StockListState \<Rightarrow> string \<Rightarrow> StockListState" where
  "handleRemoveStock net st s =
     handleRemoveStock_settle (stocks st) s (removeStock net s) (handleRemoveStock_begin st s)"

text \<open>
  The Remove button of a row: \<open>disabled={removingSymbol === stock.symbol}\<close>.  Only the row
  being removed is disabled; the buttons of the other rows stay live during a request.
\<close>

definition remove_disabled :: "StockListState \<Rightarrow> string \<Rightarrow> bool" where
  "remove_disabled st s = (removingSymbol st = Some s)"

text \<open>
  What happens to the list component: a click on the Remove button of a row, or the
  settling of a remove request that is under way.  Beside the state, the requests under
  way are kept, each with the list its handler captured.
\<close>

datatype list_event = ClickRemove string | RemoveSettled string "axios_error + response_data"

type_synonym list_config = "StockListState \<times> (string \<times> Stock list) list"

fun list_step :: "list_event \<Rightarrow> list_config \<Rightarrow> list_config" where
  "list_step (ClickRemove s) (st, pending) =
     (if s \<in> set (map symbol (stocks st)) \<and> \<not> remove_disabled st s
      then (handleRemoveStock_begin st s, pending @ [(s, stocks st)])
      else (st, pending))"
| "list_step (RemoveSettled s result) (st, pending) =
     (case map_of pending s of
        None \<Rightarrow> (st, pending)
      | Some captured \<Rightarrow>
          (handleRemoveStock_settle captured s result st, remove1 (s, captured) pending))"

fun list_run :: "list_event list \<Rightarrow> list_config \<Rightarrow> list_config" where
  "list_run [] c = c"
| "list_run (e # es) c = list_run es (list_step e c)"

section \<open>The add-stock form\<close>

text \<open>
  What one run of \<open>AddStockForm.handleSubmit\<close> does: the requests it sent, the content of
  the text field afterwards, and the number of times it called \<open>onStockAdded\<close>.
\<close>

record SubmitEffects =
  requests :: "request list"
  field_after :: codepoints
  stock_added :: nat

text \<open>
  \<open>if (!symbol) return;\<close> leaves on the empty string.  Otherwise the upper-cased text is
  posted (\<open>unicode\<close> is the engine's case-mapping table beyond ASCII); on success the field is cleared and the callback runs, on failure the error is
  logged and nothing else happens.
\<close>

definition handleSubmit :: "(nat \<Rightarrow> codepoints) \<Rightarrow> backend \<Rightarrow> codepoints \<Rightarrow> SubmitEffects" where
  "handleSubmit unicode net s =
     (if s = [] then \<lparr>requests = [], field_after = s, stock_added = 0\<rparr>
      else case addStock net (toUpperCase unicode s) of
             Inr d \<Rightarrow>
               \<lparr>requests = [PostStock (toUpperCase unicode s)], field_after = [],
                stock_added = 1\<rparr>
           | Inl err \<Rightarrow>
               \<lparr>requests = [PostStock (toUpperCase unicode s)], field_after = s,
                stock_added = 0\<rparr>)"

section \<open>The analyze button\<close>

text \<open>
  The button holds one \<open>useState\<close> cell, \<open>loading\<close> (here \<open>analyzing\<close>, the name \<open>loading\<close>
  being taken by the list).  Three counters observe it: the \<open>analyzeStocks\<close> calls that
  have started and not settled, the calls of \<open>onAnalysisComplete\<close>, and the errors logged
  by the \<open>catch\<close> clause.
\<close>

record AnalyzeButton =
  analyzing :: bool
  in_flight :: nat
  completions :: nat
  logged :: nat

definition initialButton :: AnalyzeButton where
  "initialButton = \<lparr>analyzing = False, in_flight = 0, completions = 0, logged = 0\<rparr>"

text \<open>The attribute \<open>disabled={loading}\<close>.\<close>

definition disabled :: "AnalyzeButton \<Rightarrow> bool" where
  "disabled b = analyzing b"

text \<open>\<open>handleAnalyze\<close> up to its \<open>await\<close>: \<open>setLoading(true)\<close> and the call is under way.\<close>

definition handleAnalyze_begin :: "AnalyzeButton \<Rightarrow> AnalyzeButton" where
  "handleAnalyze_begin b = b\<lparr>analyzing := True, in_flight := in_flight b + 1\<rparr>"

text \<open>
  \<open>handleAnalyze\<close> from the \<open>await\<close> on: the callback when the promise is fulfilled, the
  \<open>catch\<close> clause (a log, no rethrow) when it is rejected, and \<open>setLoading(false)\<close> in
  \<open>finally\<close>.
\<close>

definition handleAnalyze_settle :: "axios_error + response_data \<Rightarrow> AnalyzeButton \<Rightarrow> AnalyzeButton" where
  "handleAnalyze_settle result b =
     (let after = (case result of
                     Inr d \<Rightarrow> b\<lparr>completions := completions b + 1\<rparr>
                   | Inl err \<Rightarrow> b\<lparr>logged := logged b + 1\<rparr>)
      in after\<lparr>analyzing := False, in_flight := in_flight b - 1\<rparr>)"

text \<open>One whole run of the handler against a backend.\<close>

definition handleAnalyze :: "backend \<Rightarrow> AnalyzeButton \<Rightarrow> AnalyzeButton" where
  "handleAnalyze net b = handleAnalyze_settle (analyzeStocks net) (handleAnalyze_begin b)"

text \<open>
  The life of the button.  A click reaches \<open>handleAnalyze\<close> only while the button is not
  disabled (React re-renders after the state update of a click handler before it
  dispatches the next event); a call under way settles one way or the other.
\<close>

inductive button_reachable :: "AnalyzeButton \<Rightarrow> bool" where
  start: "button_reachable initialButton"
| click: "button_reachable b \<Longrightarrow> \<not> disabled b \<Longrightarrow> button_reachable (handleAnalyze_begin b)"
| settle: "button_reachable b \<Longrightarrow> 0 < in_flight b \<Longrightarrow>
           button_reachable (handleAnalyze_settle result b)"

section \<open>The engine behind the requests\<close>

text \<open>
  Modelled from the spec: the error taxonomy of the engine (section 7); the backend that
  raises these errors is not among the source files.
\<close>

datatype engine_error =
    ValidationError
  | DuplicateSymbol
  | NotFound
  | SymbolNotFound
  | TransientFetchError
  | PersistenceError

text \<open>
  Modelled from the spec: the metric fields of a StockRecord (section 3), each of which may
  be absent; the record type itself lives in the missing backend.
\<close>

datatype metric = CurrentPrice | PeRatio | Roe | Rsi | Macd | Volatility | Beta | SentimentScore

type_synonym metric_values = "metric \<Rightarrow> rat option"

text \<open>
  Modelled from the spec: an AnalystRatingRow, five non-negative rating counts (section 3);
  the dataset loader is missing.
\<close>

record RatingCounts =
  strong_buy :: nat
  buy :: nat
  hold :: nat
  sell :: nat
  strong_sell :: nat

text \<open>
  Modelled from the spec: the all-zero counts that \<open>lookup\<close> returns for a symbol without a
  row (section 4.2).
\<close>

definition zero_ratings :: RatingCounts where
  "zero_ratings = \<lparr>strong_buy = 0, buy = 0, hold = 0, sell = 0, strong_sell = 0\<rparr>"

text \<open>
  Modelled from the spec: the StockRecord of section 3, keyed by its symbol; the score is
  null and the timestamp missing until the first successful pass.  The persistence layer
  that declares it is missing.
\<close>

record StockRecord =
  rec_symbol :: string
  rec_metrics :: metric_values
  rec_ratings :: RatingCounts
  rec_total_score :: "rat option"
  last_analyzed_at :: "nat option"

subsection \<open>Scoring engine\<close>

text \<open>
  Modelled from the spec: the tunable configuration of the scoring engine (sections 4.3
  and 9): a weight and a sub-score mapping per metric, the weight of the analyst term, and
  the score of a record with nothing to average.  The spec leaves their values to policy,
  so they are parameters.
\<close>

record ScoringPolicy =
  weight :: "metric \<Rightarrow> rat"
  sub_score :: "metric \<Rightarrow> rat \<Rightarrow> rat"
  ratings_weight :: rat
  empty_score :: rat

text \<open>
  Modelled from the spec: the metrics that section 4.3 gives a sub-score (the price is
  stored but not scored).
\<close>

definition scored_metrics :: "metric list" where
  "scored_metrics = [PeRatio, Roe, Rsi, Macd, Volatility, Beta, SentimentScore]"

text \<open>Modelled from the spec: the total rating count of section 4.3.\<close>

definition rating_total :: "RatingCounts \<Rightarrow> nat" where
  "rating_total r = strong_buy r + buy r + hold r + sell r + strong_sell r"

text \<open>
  Modelled from the spec: net bullishness (section 4.3), the weighted sum
  \<open>strong_buy * 2 + buy - sell - strong_sell * 2\<close> normalised by the total count; without any
  rating there is nothing to normalise and the term is absent (section 8: such a score
  uses market metrics only).
\<close>

definition net_bullishness :: "RatingCounts \<Rightarrow> rat option" where
  "net_bullishness r =
     (if rating_total r = 0 then None
      else Some ((2 * of_nat (strong_buy r) + of_nat (buy r)
                  - of_nat (sell r) - 2 * of_nat (strong_sell r)) / of_nat (rating_total r)))"

text \<open>
  Modelled from the spec: the terms of the weighted average (section 4.3), a weight and a
  sub-score for every scored metric that is present; an absent metric yields no term.
\<close>

definition metric_terms :: "ScoringPolicy \<Rightarrow> metric_values \<Rightarrow> (rat \<times> rat) list" where
  "metric_terms p m =
     List.map_filter
       (\<lambda>k. case m k of None \<Rightarrow> None | Some v \<Rightarrow> Some (weight p k, sub_score p k v))
       scored_metrics"

text \<open>Modelled from the spec: the analyst term of the weighted average (section 4.3).\<close>

definition rating_terms :: "ScoringPolicy \<Rightarrow> RatingCounts \<Rightarrow> (rat \<times> rat) list" where
  "rating_terms p r =
     (case net_bullishness r of None \<Rightarrow> [] | Some b \<Rightarrow> [(ratings_weight p, b)])"

text \<open>Modelled from the spec: the numerator of the weighted average (section 4.3).\<close>

definition numerator :: "ScoringPolicy \<Rightarrow> metric_values \<Rightarrow> RatingCounts \<Rightarrow> rat" where
  "numerator p m r = sum_list (map (\<lambda>(w, x). w * x) (metric_terms p m @ rating_terms p r))"

text \<open>Modelled from the spec: the denominator of the weighted average (section 4.3).\<close>

definition denominator :: "ScoringPolicy \<Rightarrow> metric_values \<Rightarrow> RatingCounts \<Rightarrow> rat" where
  "denominator p m r = sum_list (map fst (metric_terms p m @ rating_terms p r))"

text \<open>
  Modelled from the spec: \<open>score(metrics, ratings) -> total_score\<close> (section 4.3), the
  weighted average of the terms; the scoring module is missing.
\<close>

definition score :: "ScoringPolicy \<Rightarrow> metric_values \<Rightarrow> RatingCounts \<Rightarrow> rat" where
  "score p m r =
     (if denominator p m r = 0 then empty_score p else numerator p m r / denominator p m r)"

subsection \<open>Portfolio store\<close>

type_synonym store = "StockRecord list"

text \<open>
  Modelled from the spec: the placeholder that add-stock creates (section 3): no metric, no
  score, never analysed.
\<close>

definition placeholder :: "string \<Rightarrow> StockRecord" where
  "placeholder s =
     \<lparr>rec_symbol = s, rec_metrics = (\<lambda>k. None), rec_ratings = zero_ratings,
      rec_total_score = None, last_analyzed_at = None\<rparr>"

text \<open>
  Modelled from the spec: \<open>add\<close> of the Portfolio Store (section 4.4), which fails with
  DuplicateSymbol on a symbol already present; the store's code is missing.
\<close>

definition store_add :: "string \<Rightarrow> store \<Rightarrow> engine_error option \<times> store" where
  "store_add s st =
     (if s \<in> set (map rec_symbol st) then (Some DuplicateSymbol, st)
      else (None, st @ [placeholder s]))"

text \<open>
  Modelled from the spec: \<open>remove\<close> of the Portfolio Store (section 4.4), which fails with
  NotFound on an unknown symbol.
\<close>

definition store_remove :: "string \<Rightarrow> store \<Rightarrow> engine_error option \<times> store" where
  "store_remove s st =
     (if s \<notin> set (map rec_symbol st) then (Some NotFound, st)
      else (None, filter (\<lambda>r. rec_symbol r \<noteq> s) st))"

text \<open>
  Modelled from the spec: \<open>list\<close> of the Portfolio Store (section 4.4): every tracked record,
  analysed or not, in order.
\<close>

definition store_list :: "store \<Rightarrow> StockRecord list" where
  "store_list st = st"

text \<open>
  Modelled from the spec: \<open>upsert\<close> of the Portfolio Store (section 4.4): the record takes the
  place of the one with its symbol, or joins the store when there is none.
\<close>

definition store_upsert :: "StockRecord \<Rightarrow> store \<Rightarrow> store" where
  "store_upsert r st =
     (if rec_symbol r \<in> set (map rec_symbol st)
      then map (\<lambda>x. if rec_symbol x = rec_symbol r then r else x) st
      else st @ [r])"

text \<open>Modelled from the spec: the mutating operations of the store as commands.\<close>

datatype store_op = Add string | Remove string | Upsert StockRecord

text \<open>Modelled from the spec: one command applied to the store (section 4.4).\<close>

fun apply_op :: "store_op \<Rightarrow> store \<Rightarrow> store" where
  "apply_op (Add s) st = snd (store_add s st)"
| "apply_op (Remove s) st = snd (store_remove s st)"
| "apply_op (Upsert r) st = store_upsert r st"

text \<open>Modelled from the spec: a history of commands, oldest first.\<close>

fun run_ops :: "store_op list \<Rightarrow> store \<Rightarrow> store" where
  "run_ops [] st = st"
| "run_ops (c # cs) st = run_ops cs (apply_op c st)"

subsection \<open>Market data client and orchestrator\<close>

text \<open>
  Modelled from the spec: what the external provider can answer to one request
  (section 4.1): the metrics, "no such symbol", or nothing usable.
\<close>

datatype provider_reply = Metrics metric_values | UnknownSymbol | Unreachable

text \<open>
  Modelled from the spec: everything the engine consults (sections 4.1, 4.2, 4.3, 7): the
  provider's reply to the n-th attempt for a symbol, the sentiment source, the analyst
  dataset, the scoring policy, and whether the store refuses a write.
\<close>

record Environment =
  provider :: "string \<Rightarrow> nat \<Rightarrow> provider_reply"
  sentiment_source :: "string \<Rightarrow> rat option"
  rating_dataset :: "string \<Rightarrow> RatingCounts option"
  policy :: ScoringPolicy
  write_fails :: "string \<Rightarrow> bool"

text \<open>Modelled from the spec: the retry budget of section 4.1, three attempts.\<close>

definition max_attempts :: nat where
  "max_attempts = 3"

text \<open>
  Modelled from the spec: the retry loop of the Market Data Client (section 4.1).  An
  unknown symbol is terminal; a transient failure is tried again until the budget is
  spent.  (Back-off delays and rate limiting cost time and leave the result alone.)
\<close>

fun fetch_attempts :: "(nat \<Rightarrow> provider_reply) \<Rightarrow> nat \<Rightarrow> nat \<Rightarrow> engine_error + metric_values" where
  "fetch_attempts reply 0 k = Inl TransientFetchError"
| "fetch_attempts reply (Suc n) k =
     (case reply k of
        Metrics m \<Rightarrow> Inr m
      | UnknownSymbol \<Rightarrow> Inl SymbolNotFound
      | Unreachable \<Rightarrow> fetch_attempts reply n (Suc k))"

text \<open>Modelled from the spec: \<open>fetch(symbol) -> MarketMetrics | Error\<close> (section 4.1).\<close>

definition fetch :: "Environment \<Rightarrow> string \<Rightarrow> engine_error + metric_values" where
  "fetch env s = fetch_attempts (provider env s) max_attempts 0"

text \<open>
  Modelled from the spec: \<open>lookup(symbol) -> RatingCounts\<close> (section 4.2), every count 0 for
  a symbol without a row.
\<close>

definition lookup :: "Environment \<Rightarrow> string \<Rightarrow> RatingCounts" where
  "lookup env s = (case rating_dataset env s of None \<Rightarrow> zero_ratings | Some r \<Rightarrow> r)"

text \<open>Modelled from the spec: the per-symbol entry of a BatchResult (section 4.5).\<close>

datatype outcome = Success rat | Failure engine_error

text \<open>
  Modelled from the spec: one symbol's pass (section 4.5): fetch, lookup, score, upsert.
  A failed fetch, a symbol that has left the store, or a refused write is recorded as a
  failure and the store stays as it was; a success replaces the record and stamps it.
\<close>

definition analyze_symbol :: "Environment \<Rightarrow> nat \<Rightarrow> string \<Rightarrow> store \<Rightarrow> outcome \<times> store" where
  "analyze_symbol env now s st =
     (case fetch env s of
        Inl e \<Rightarrow> (Failure e, st)
      | Inr market \<Rightarrow>
          (let ratings = lookup env s;
               ms = market(SentimentScore := sentiment_source env s);
               new_score = score (policy env) ms ratings
           in if s \<notin> set (map rec_symbol st) then (Failure NotFound, st)
              else if write_fails env s then (Failure PersistenceError, st)
              else (Success new_score,
                    store_upsert
                      \<lparr>rec_symbol = s, rec_metrics = ms, rec_ratings = ratings,
                       rec_total_score = Some new_score, last_analyzed_at = Some now\<rparr> st)))"

text \<open>
  Modelled from the spec: the fold over the snapshot (sections 4.5 and 9) that yields one
  result per symbol and hands the store on.
\<close>

fun reanalyze_symbols ::
  "Environment \<Rightarrow> nat \<Rightarrow> string list \<Rightarrow> store \<Rightarrow> (string \<times> outcome) list \<times> store" where
  "reanalyze_symbols env now [] st = ([], st)"
| "reanalyze_symbols env now (s # ss) st =
     (let (out, st1) = analyze_symbol env now s st;
          (outs, st2) = reanalyze_symbols env now ss st1
      in ((s, out) # outs, st2))"

text \<open>
  Modelled from the spec: \<open>reanalyze_all() -> BatchResult\<close> (section 4.5) over the symbols
  listed when the run starts.
\<close>

definition reanalyze_all :: "Environment \<Rightarrow> nat \<Rightarrow> store \<Rightarrow> (string \<times> outcome) list \<times> store" where
  "reanalyze_all env now st = reanalyze_symbols env now (map rec_symbol (store_list st)) st"

section \<open>Sample data\<close>

text \<open>
  A record with a given symbol and score whose metrics have not been fetched, and a
  backend that tracks three such records and removes one of them on request.
\<close>

definition stock_of :: "string \<Rightarrow> jsnum \<Rightarrow> Stock" where
  "stock_of s sc =
     \<lparr>symbol = s, current_price = Null, pe_ratio = Null, roe = Null, total_score = sc,
      analyst_ratings_buy = Num 0, analyst_ratings_hold = Num 0, analyst_ratings_sell = Num 0,
      analyst_ratings_strong_buy = Num 0, analyst_ratings_strong_sell = Num 0,
      rsi = Null, macd = Null, volatility = Null, sentiment_score = Null, beta = Null\<rparr>"

definition demo_backend :: backend where
  "demo_backend req =
     (case req of
        GetStocks \<Rightarrow>
          Fulfilled (DataArray [stock_of ''KO'' (Num 2), stock_of ''NEW'' Null, stock_of ''AAPL'' (Num 5)])
      | PostStock s \<Rightarrow> Fulfilled DataNull
      | PostAnalyze \<Rightarrow> Fulfilled DataNull
      | DeleteStock s \<Rightarrow>
          (if s = ''KO'' then Fulfilled DataNull
           else Rejected (AxiosError ''Request failed with status code 404'' (Some ''Stock not found''))))"

text \<open>A backend that answers the list request with an error object and rejects the rest.\<close>

definition faulty_backend :: backend where
  "faulty_backend req =
     (case req of
        GetStocks \<Rightarrow> Fulfilled (DataObject [(''error'', ''database unavailable'')])
      | PostStock s \<Rightarrow> Rejected (AxiosError ''Network Error'' None)
      | PostAnalyze \<Rightarrow> Rejected (AxiosError ''Network Error'' None)
      | DeleteStock s \<Rightarrow> Rejected (AxiosError ''Network Error'' None))"

text \<open>
  The Latin-1 rows of the Unicode upper-case mapping, enough to run the form on text with
  accented letters: U+00E0 to U+00FE move down by 32 (the division sign stays), U+00DF
  becomes \<open>SS\<close>, U+00FF becomes U+0178, the micro sign becomes U+039C.
\<close>

definition latin1_upper :: "nat \<Rightarrow> codepoints" where
  "latin1_upper c =
     (if c = 223 then [83, 83]
      else if c = 255 then [376]
      else if c = 181 then [924]
      else if 224 \<le> c \<and> c \<le> 254 \<and> c \<noteq> 247 then [c - 32]
      else [c])"

text \<open>The list component after it has loaded three records.\<close>

definition tracked_three :: StockListState where
  "tracked_three =
     initialStockList\<lparr>loading := False,
       stocks := [stock_of ''AAPL'' (Num 5), stock_of ''KO'' (Num 2), stock_of ''NEW'' Null]\<rparr>"

text \<open>
  A policy to run the scoring engine on: linear sub-scores, fundamentals weighted three
  times the technical indicators.
\<close>

definition sample_policy :: ScoringPolicy where
  "sample_policy =
     \<lparr>weight = (\<lambda>k. if k = PeRatio \<or> k = Roe then 3 else 1),
      sub_score = (\<lambda>k v. if k = PeRatio \<or> k = Volatility \<or> k = Beta then 1 - v / 100 else v / 100),
      ratings_weight = 2,
      empty_score = 0\<rparr>"

definition sample_metrics :: metric_values where
  "sample_metrics =
     (\<lambda>k. None)(CurrentPrice := Some 190, PeRatio := Some 30, Roe := Some 40, Rsi := Some 55)"

text \<open>
  The example of section 8: the provider knows \<open>AAPL\<close>, answers "no such symbol" for
  \<open>ZZZZ\<close>, and cannot be reached for anything else.
\<close>

definition sample_env :: Environment where
  "sample_env =
     \<lparr>provider = (\<lambda>s n. if s = ''AAPL'' then Metrics sample_metrics
                         else if s = ''ZZZZ'' then UnknownSymbol else Unreachable),
      sentiment_source = (\<lambda>s. None),
      rating_dataset = (\<lambda>s. None),
      policy = sample_policy,
      write_fails = (\<lambda>s. False)\<rparr>"

definition sample_store :: store where
  "sample_store = [placeholder ''AAPL'', placeholder ''ZZZZ'']"

section \<open>Auxiliary notions\<close>

text \<open>
  The contribution of one metric to the numerator and to the denominator of the weighted
  average: nothing when the metric is absent.
\<close>

definition metric_part :: "ScoringPolicy \<Rightarrow> metric_values \<Rightarrow> metric \<Rightarrow> rat" where
  "metric_part p m k = (case m k of None \<Rightarrow> 0 | Some v \<Rightarrow> weight p k * sub_score p k v)"

definition weight_part :: "ScoringPolicy \<Rightarrow> metric_values \<Rightarrow> metric \<Rightarrow> rat" where
  "weight_part p m k = (case m k of None \<Rightarrow> 0 | Some v \<Rightarrow> weight p k)"

text \<open>
  Every record of the symbol \<open>x\<close> carries the score \<open>sc\<close> and the timestamp \<open>now\<close>.
\<close>

definition stamped :: "string \<Rightarrow> rat \<Rightarrow> nat \<Rightarrow> store \<Rightarrow> bool" where
  "stamped x sc now st =
     list_all (\<lambda>y. rec_symbol y = x \<longrightarrow>
                 rec_total_score y = Some sc \<and> last_analyzed_at y = Some now) st"

section \<open>The displayed list is sorted\<close>

lemma mset_sort_insert: "mset (sort_insert cmp x xs) = add_mset x (mset xs)"
  by (induction xs) simp_all

lemma mset_array_sort: "mset (array_sort cmp xs) = mset xs"
  by (induction xs) (simp_all add: mset_sort_insert)

lemma set_sort_insert: "set (sort_insert cmp x xs) = insert x (set xs)"
  by (induction xs) auto

lemma sorted_sort_insert:
  assumes "sorted_wrt (\<lambda>a b. score_key b \<le> score_key a) xs"
  shows "sorted_wrt (\<lambda>a b. score_key b \<le> score_key a) (sort_insert compareStocks x xs)"
  using assms
proof (induction xs)
  case Nil
  then show ?case by simp
next
  case (Cons y ys)
  show ?case
  proof (cases "compareStocks x y \<le> 0")
    case True
    then have xy: "score_key y \<le> score_key x"
      by (simp add: compareStocks_def score_key_def)
    have "\<forall>z\<in>set ys. score_key z \<le> score_key y"
      using Cons.prems by simp
    with xy have "\<forall>z\<in>set ys. score_key z \<le> score_key x"
      by auto
    with xy True Cons.prems show ?thesis by simp
  next
    case False
    then have yx: "score_key x \<le> score_key y"
      by (simp add: compareStocks_def score_key_def)
    have tl: "sorted_wrt (\<lambda>a b. score_key b \<le> score_key a) (sort_insert compareStocks x ys)"
      using Cons.IH Cons.prems by simp
    have "\<forall>z\<in>set (sort_insert compareStocks x ys). score_key z \<le> score_key y"
      using Cons.prems yx by (simp add: set_sort_insert)
    with tl False show ?thesis by simp
  qed
qed

lemma sorted_array_sort:
  "sorted_wrt (\<lambda>a b. score_key b \<le> score_key a) (array_sort compareStocks xs)"
  by (induction xs) (simp_all add: sorted_sort_insert)

lemma adjacent_of_sorted:
  assumes "sorted_wrt (\<lambda>a b. score_key b \<le> score_key a) ys" and "Suc i < length ys"
  shows "score_key (ys ! Suc i) \<le> score_key (ys ! i)"
  using assms by (simp add: sorted_wrt_iff_nth_less)

lemma stocks_fetchStocks_array:
  assumes "net GetStocks = Fulfilled (DataArray xs)"
  shows "stocks (fetchStocks net st) = array_sort compareStocks xs"
  using assms by (simp add: fetchStocks_def fetchStocks_try_def getAllStocks_def)

lemma score_key_falsy: "\<not> truthy (total_score a) \<Longrightarrow> score_key a = 0"
  by (cases "total_score a") (simp_all add: score_key_def)

text \<open>
  Claim C8.  When \<open>getAllStocks\<close> returns an array, the list that \<open>fetchStocks\<close> installs is
  a permutation of that array, sorted by non-increasing sort key, where the key of a record
  is its \<open>total_score\<close> when that is truthy and \<open>0\<close> when it is \<open>null\<close>, \<open>undefined\<close> or
  otherwise falsy; so any two adjacent displayed records are in that order.
\<close>

theorem fetchStocks_sorted_permutation:
  assumes "net GetStocks = Fulfilled (DataArray xs)"
  shows "mset (stocks (fetchStocks net st)) = mset xs
       \<and> sorted_wrt (\<lambda>a b. score_key b \<le> score_key a) (stocks (fetchStocks net st))
       \<and> (\<forall>i. Suc i < length (stocks (fetchStocks net st)) \<longrightarrow>
              score_key (stocks (fetchStocks net st) ! Suc i)
                \<le> score_key (stocks (fetchStocks net st) ! i))
       \<and> (\<forall>a. score_key a = (if truthy (total_score a) then or_zero (total_score a) else 0))"
proof -
  have eq: "stocks (fetchStocks net st) = array_sort compareStocks xs"
    using assms by (rule stocks_fetchStocks_array)
  have key: "\<forall>a. score_key a = (if truthy (total_score a) then or_zero (total_score a) else 0)"
    by (simp add: score_key_falsy) (simp add: score_key_def)
  have perm: "mset (array_sort compareStocks xs) = mset xs"
    by (rule mset_array_sort)
  have srt: "sorted_wrt (\<lambda>a b. score_key b \<le> score_key a) (array_sort compareStocks xs)"
    by (rule sorted_array_sort)
  have adj: "\<forall>i. Suc i < length (array_sort compareStocks xs) \<longrightarrow>
      score_key (array_sort compareStocks xs ! Suc i) \<le> score_key (array_sort compareStocks xs ! i)"
    using srt by (blast intro: adjacent_of_sorted)
  show ?thesis
    unfolding eq using perm srt adj key by blast
qed

theorem fetchStocks_sorted_permutation_witness:
  "demo_backend GetStocks =
     Fulfilled (DataArray [stock_of ''KO'' (Num 2), stock_of ''NEW'' Null, stock_of ''AAPL'' (Num 5)])
   \<and> map symbol (stocks (fetchStocks demo_backend initialStockList)) = [''AAPL'', ''KO'', ''NEW'']
   \<and> mset (stocks (fetchStocks demo_backend initialStockList))
       = mset [stock_of ''KO'' (Num 2), stock_of ''NEW'' Null, stock_of ''AAPL'' (Num 5)]
   \<and> score_key (stocks (fetchStocks demo_backend initialStockList) ! Suc 0)
       \<le> score_key (stocks (fetchStocks demo_backend initialStockList) ! 0)"
proof -
  have h: "demo_backend GetStocks =
     Fulfilled (DataArray [stock_of ''KO'' (Num 2), stock_of ''NEW'' Null, stock_of ''AAPL'' (Num 5)])"
    by (simp add: demo_backend_def)
  have order: "map symbol (stocks (fetchStocks demo_backend initialStockList)) = [''AAPL'', ''KO'', ''NEW'']"
    using stocks_fetchStocks_array [of demo_backend _ initialStockList, OF h]
    by (simp add: compareStocks_def stock_of_def)
  have len: "Suc 0 < length (stocks (fetchStocks demo_backend initialStockList))"
    using stocks_fetchStocks_array [of demo_backend _ initialStockList, OF h]
    by (simp add: compareStocks_def stock_of_def)
  from fetchStocks_sorted_permutation [of demo_backend _ initialStockList, OF h] h order len
  show ?thesis by blast
qed

section \<open>A response that is no array\<close>

text \<open>
  Claim C9.  When the body of the \<open>/stocks\<close> response is not an array, the \<open>try\<close> block of
  the loader completes without an exception, the empty list becomes the displayed
  portfolio, and nothing else changes; and whatever the backend does, success or failure,
  the loading flag is cleared when the loader is done.
\<close>

theorem fetchStocks_not_array:
  assumes "net GetStocks = Fulfilled d" and "\<not> isArray d"
  shows "fetchStocks_try net st = Inr (st\<lparr>loading := True, stocks := []\<rparr>)
       \<and> fetchStocks net st = st\<lparr>loading := False, stocks := []\<rparr>
       \<and> loading (fetchStocks net2 st2) = False"
  using assms
  by (cases d) (simp_all add: fetchStocks_def fetchStocks_try_def getAllStocks_def split: sum.splits)

theorem fetchStocks_not_array_witness:
  "faulty_backend GetStocks = Fulfilled (DataObject [(''error'', ''database unavailable'')])
   \<and> \<not> isArray (DataObject [(''error'', ''database unavailable'')])
   \<and> stocks (fetchStocks faulty_backend tracked_three) = []
   \<and> error (fetchStocks faulty_backend tracked_three) = []
   \<and> loading (fetchStocks faulty_backend tracked_three) = False"
proof -
  have h1: "faulty_backend GetStocks = Fulfilled (DataObject [(''error'', ''database unavailable'')])"
    by (simp add: faulty_backend_def)
  have h2: "\<not> isArray (DataObject [(''error'', ''database unavailable'')])"
    by simp
  from fetchStocks_not_array [of faulty_backend _ tracked_three, OF h1 h2] h1 h2
  show ?thesis by (simp add: tracked_three_def initialStockList_def)
qed

section \<open>Removing a stock from the displayed list\<close>

lemma stocks_settle_rejected:
  "stocks (handleRemoveStock_settle captured s (Inl err) st) = stocks st"
  by (simp add: handleRemoveStock_settle_def)

lemma stocks_settle_fulfilled:
  "stocks (handleRemoveStock_settle captured s (Inr d) st)
     = filter (\<lambda>r. symbol r \<noteq> s) captured"
  by (simp add: handleRemoveStock_settle_def)

lemma stocks_handleRemoveStock_alone:
  "stocks (handleRemoveStock net st s)
     = (case removeStock net s of
          Inl err \<Rightarrow> stocks st
        | Inr d \<Rightarrow> filter (\<lambda>r. symbol r \<noteq> s) (stocks st))"
  by (simp add: handleRemoveStock_def handleRemoveStock_settle_def handleRemoveStock_begin_def
      split: sum.splits)

text \<open>
  Claim C4.  The claim asks that a successful removal take away exactly the record of its
  symbol and leave every other record as it is.  The code does not always do so.  With
  \<open>AAPL\<close>, \<open>KO\<close> and \<open>NEW\<close> on display, Remove is clicked on \<open>KO\<close> and then, the first
  request still under way, on \<open>AAPL\<close>, whose button is live.  Both requests succeed.  The
  first leaves \<open>AAPL\<close> and \<open>NEW\<close>; the second filters the list its handler captured at the
  click, which still held \<open>KO\<close>, and installs \<open>KO\<close> and \<open>NEW\<close>: the removed record is back.
\<close>

theorem overlapping_removals_restore_a_record:
  "map symbol (stocks (fst (list_run
       [ClickRemove ''KO'', ClickRemove ''AAPL'', RemoveSettled ''KO'' (Inr DataNull)]
       (tracked_three, [])))) = [''AAPL'', ''NEW'']
   \<and> map symbol (stocks (fst (list_run
       [ClickRemove ''KO'', ClickRemove ''AAPL'', RemoveSettled ''KO'' (Inr DataNull),
        RemoveSettled ''AAPL'' (Inr DataNull)]
       (tracked_three, [])))) = [''KO'', ''NEW'']
   \<and> snd (list_run
       [ClickRemove ''KO'', ClickRemove ''AAPL'', RemoveSettled ''KO'' (Inr DataNull),
        RemoveSettled ''AAPL'' (Inr DataNull)]
       (tracked_three, [])) = []"
  by (simp add: tracked_three_def initialStockList_def stock_of_def remove_disabled_def
      handleRemoveStock_begin_def handleRemoveStock_settle_def)

section \<open>Submitting a symbol\<close>

lemma upper_code_ascii: "c < 128 \<Longrightarrow> upper_code u c = [ascii_upper c]"
  by (simp add: upper_code_def)

lemma toUpperCase_ascii: "ascii_text s \<Longrightarrow> toUpperCase u s = map ascii_upper s"
  by (induction s) (simp_all add: toUpperCase_def ascii_text_def upper_code_ascii)

lemma ascii_upper_below: "c < 128 \<Longrightarrow> ascii_upper c < 128"
  by (auto simp: ascii_upper_def)

lemma ascii_upper_idem: "ascii_upper (ascii_upper c) = ascii_upper c"
  by (auto simp: ascii_upper_def)

lemma alnum_ascii_upper: "alnum_code (ascii_upper c) = alnum_code c"
  by (auto simp: alnum_code_def ascii_upper_def)

lemma ascii_text_upper: "ascii_text s \<Longrightarrow> ascii_text (map ascii_upper s)"
  by (induction s) (simp_all add: ascii_text_def ascii_upper_below)

lemma ascii_alphanumeric_upper:
  "ascii_alphanumeric (map ascii_upper s) = ascii_alphanumeric s"
  by (induction s) (simp_all add: ascii_alphanumeric_def alnum_ascii_upper)

lemma requests_handleSubmit:
  "requests (handleSubmit u net s) = (if s = [] then [] else [PostStock (toUpperCase u s)])"
  by (simp add: handleSubmit_def split: sum.splits)

text \<open>
  Claim C7, amended.  Nothing is submitted for the empty input; for any other input
  exactly one add-stock request is sent, and its symbol, the key sent to the store, is
  what \<open>toUpperCase\<close> makes of the input.  For input in ASCII that symbol is the input with
  \<open>a\<close> to \<open>z\<close> raised to \<open>A\<close> to \<open>Z\<close>: non-empty, in ASCII, left alone by a second
  upper-casing, and alphanumeric exactly when the input is.  The form makes no
  alphanumeric check.
\<close>

theorem handleSubmit_posts_upper_cased:
  "(s = [] \<longrightarrow> requests (handleSubmit u net s) = [])
   \<and> (s \<noteq> [] \<longrightarrow> requests (handleSubmit u net s) = [PostStock (toUpperCase u s)])
   \<and> (ascii_text s \<longrightarrow>
         toUpperCase u s = map ascii_upper s
       \<and> (s \<noteq> [] \<longrightarrow> toUpperCase u s \<noteq> [])
       \<and> ascii_text (toUpperCase u s)
       \<and> toUpperCase u (toUpperCase u s) = toUpperCase u s
       \<and> ascii_alphanumeric (toUpperCase u s) = ascii_alphanumeric s)"
proof (intro conjI impI)
  show "requests (handleSubmit u net s) = []" if "s = []"
    using that by (simp add: requests_handleSubmit)
  show "requests (handleSubmit u net s) = [PostStock (toUpperCase u s)]" if "s \<noteq> []"
    using that by (simp add: requests_handleSubmit)
next
  assume a: "ascii_text s"
  then show up: "toUpperCase u s = map ascii_upper s"
    by (rule toUpperCase_ascii)
  show "toUpperCase u s \<noteq> []" if "s \<noteq> []"
    using that by (simp add: up)
  show a': "ascii_text (toUpperCase u s)"
    unfolding up using a by (rule ascii_text_upper)
  show "toUpperCase u (toUpperCase u s) = toUpperCase u s"
    using toUpperCase_ascii [OF a', of u] by (simp add: up ascii_upper_idem)
  show "ascii_alphanumeric (toUpperCase u s) = ascii_alphanumeric s"
    unfolding up by (rule ascii_alphanumeric_upper)
qed

theorem handleSubmit_posts_upper_cased_witness:
  "requests (handleSubmit latin1_upper demo_backend []) = []
   \<and> codes ''aapl'' \<noteq> []
   \<and> ascii_text (codes ''aapl'')
   \<and> requests (handleSubmit latin1_upper demo_backend (codes ''aapl'')) = [PostStock (codes ''AAPL'')]
   \<and> ascii_alphanumeric (codes ''AAPL'')"
proof -
  have ne: "codes ''aapl'' \<noteq> []" by (simp add: codes_def)
  have a: "ascii_text (codes ''aapl'')" by code_simp
  have up: "map ascii_upper (codes ''aapl'') = codes ''AAPL''" by code_simp
  have al: "ascii_alphanumeric (codes ''AAPL'')" by code_simp
  from handleSubmit_posts_upper_cased [of "[]" latin1_upper demo_backend]
       handleSubmit_posts_upper_cased [of "codes ''aapl''" latin1_upper demo_backend]
       ne a up al
  show ?thesis by simp
qed

text \<open>
  Claim C7 as stated fails: the input \<open>brk.b\<close> is submitted, as \<open>BRK.B\<close>, which is not
  alphanumeric.
\<close>

theorem handleSubmit_not_alphanumeric:
  "requests (handleSubmit latin1_upper demo_backend (codes ''brk.b'')) = [PostStock (codes ''BRK.B'')]
   \<and> \<not> ascii_alphanumeric (codes ''BRK.B'')"
proof -
  have up: "toUpperCase latin1_upper (codes ''brk.b'') = codes ''BRK.B''" by code_simp
  have ne: "codes ''brk.b'' \<noteq> []" by (simp add: codes_def)
  have na: "\<not> ascii_alphanumeric (codes ''BRK.B'')" by code_simp
  from up ne na show ?thesis by (simp add: requests_handleSubmit)
qed

lemma toUpperCase_latin1_examples:
  "toUpperCase latin1_upper [233] = [201]" "toUpperCase latin1_upper [223] = [83, 83]"
  by code_simp+

section \<open>The analyze button\<close>

lemma button_invariant:
  "button_reachable b \<Longrightarrow> in_flight b \<le> 1 \<and> (analyzing b \<longleftrightarrow> in_flight b = 1)"
proof (induction rule: button_reachable.induct)
  case start
  show ?case by (simp add: initialButton_def)
next
  case (click b)
  then have "in_flight b = 0" by (auto simp: disabled_def)
  then show ?case by (simp add: handleAnalyze_begin_def)
next
  case (settle b result)
  then have "in_flight b = 1" by auto
  then show ?case by (simp add: handleAnalyze_settle_def split: sum.splits)
qed

text \<open>
  Claim C10.  In every state the button can reach, at most one \<open>analyzeStocks\<close> call is
  under way; while one is, the loading flag is set and the button disabled, so a click
  can start a call only when none is under way.  The handler sets the flag before the
  call and clears it when the call settles, fulfilled or rejected; it calls
  \<open>onAnalysisComplete\<close> once when the call is fulfilled and not at all when it is rejected,
  and it has no exceptional exit.
\<close>

theorem analyze_button_guard:
  assumes "button_reachable b"
  shows "in_flight b \<le> 1
       \<and> (0 < in_flight b \<longrightarrow> analyzing b \<and> disabled b)
       \<and> (\<not> disabled b \<longrightarrow> in_flight b = 0)
       \<and> analyzing (handleAnalyze_begin b)
       \<and> \<not> analyzing (handleAnalyze_settle result b)
       \<and> completions (handleAnalyze_settle result b)
           = completions b + (case result of Inr d \<Rightarrow> 1 | Inl err \<Rightarrow> 0)
       \<and> \<not> analyzing (handleAnalyze net b)
       \<and> completions (handleAnalyze net b)
           = completions b + (case analyzeStocks net of Inr d \<Rightarrow> 1 | Inl err \<Rightarrow> 0)"
proof -
  from button_invariant [OF assms]
  have inv: "in_flight b \<le> 1" "analyzing b \<longleftrightarrow> in_flight b = 1" by simp_all
  have a: "0 < in_flight b \<longrightarrow> analyzing b \<and> disabled b"
    using inv by (auto simp: disabled_def)
  have b: "\<not> disabled b \<longrightarrow> in_flight b = 0"
    using inv by (auto simp: disabled_def)
  have c: "analyzing (handleAnalyze_begin b)"
    by (simp add: handleAnalyze_begin_def)
  have d: "\<not> analyzing (handleAnalyze_settle r b')" for r b'
    by (simp add: handleAnalyze_settle_def split: sum.splits)
  have e: "completions (handleAnalyze_settle r b')
           = completions b' + (case r of Inr d \<Rightarrow> 1 | Inl err \<Rightarrow> 0)" for r b'
    by (simp add: handleAnalyze_settle_def split: sum.splits)
  have f: "completions (handleAnalyze net b)
           = completions b + (case analyzeStocks net of Inr d \<Rightarrow> 1 | Inl err \<Rightarrow> 0)"
    unfolding handleAnalyze_def e by (simp add: handleAnalyze_begin_def)
  from inv(1) a b c d e f show ?thesis
    unfolding handleAnalyze_def by blast
qed

theorem analyze_button_guard_witness:
  "button_reachable (handleAnalyze_begin initialButton)
   \<and> 0 < in_flight (handleAnalyze_begin initialButton)
   \<and> disabled (handleAnalyze_begin initialButton)
   \<and> button_reachable initialButton
   \<and> \<not> disabled initialButton
   \<and> in_flight initialButton = 0
   \<and> completions (handleAnalyze demo_backend initialButton) = 1
   \<and> completions (handleAnalyze faulty_backend initialButton) = 0
   \<and> \<not> analyzing (handleAnalyze faulty_backend initialButton)"
proof -
  have r0: "button_reachable initialButton" by (rule button_reachable.start)
  have nd: "\<not> disabled initialButton" by (simp add: disabled_def initialButton_def)
  have r1: "button_reachable (handleAnalyze_begin initialButton)"
    using r0 nd by (rule button_reachable.click)
  have fl: "0 < in_flight (handleAnalyze_begin initialButton)"
    by (simp add: handleAnalyze_begin_def)
  have ok: "analyzeStocks demo_backend = Inr DataNull"
    by (simp add: analyzeStocks_def demo_backend_def)
  have ko: "analyzeStocks faulty_backend = Inl (AxiosError ''Network Error'' None)"
    by (simp add: analyzeStocks_def faulty_backend_def)
  have c0: "completions initialButton = 0" by (simp add: initialButton_def)
  from analyze_button_guard [OF r1] analyze_button_guard [OF r0, of _ demo_backend]
       analyze_button_guard [OF r0, of _ faulty_backend] r0 r1 nd fl ok ko c0
  show ?thesis by simp
qed

section \<open>Absent metrics and metrics that are zero\<close>

lemma toFixed_zero_2: "toFixed 0 2 = ''0.00''"
  by code_simp

lemma toFixed_zero_3: "toFixed 0 3 = ''0.000''"
  by code_simp

lemma or_zero_absent: "absent a \<Longrightarrow> or_zero a = 0"
  by (cases a) simp_all

text \<open>
  Claim C1, amended.  The detail view keeps the two apart for every metric field: the value
  \<open>0\<close> is shown as a fixed-point numeral and an absent value as \<open>N/A\<close> (for the ROE, as
  an empty cell before the percent sign).  The ordering of the list does not: the
  comparator reads an absent \<open>total_score\<close> as \<open>0\<close>.
\<close>

theorem detail_view_separates_absent_from_zero:
  assumes "absent a"
  shows "(''Current Price'', ''$0.00'') \<in> set (renderDetail (r\<lparr>current_price := Num 0\<rparr>))
       \<and> (''Current Price'', ''$N/A'') \<in> set (renderDetail (r\<lparr>current_price := a\<rparr>))
       \<and> (''P/E Ratio'', ''0.00'') \<in> set (renderDetail (r\<lparr>pe_ratio := Num 0\<rparr>))
       \<and> (''P/E Ratio'', ''N/A'') \<in> set (renderDetail (r\<lparr>pe_ratio := a\<rparr>))
       \<and> (''ROE'', ''0.00%'') \<in> set (renderDetail (r\<lparr>roe := Num 0\<rparr>))
       \<and> (''ROE'', ''%'') \<in> set (renderDetail (r\<lparr>roe := a\<rparr>))
       \<and> (''RSI'', ''0.00'') \<in> set (renderDetail (r\<lparr>rsi := Num 0\<rparr>))
       \<and> (''RSI'', ''N/A'') \<in> set (renderDetail (r\<lparr>rsi := a\<rparr>))
       \<and> (''MACD'', ''0.00'') \<in> set (renderDetail (r\<lparr>macd := Num 0\<rparr>))
       \<and> (''MACD'', ''N/A'') \<in> set (renderDetail (r\<lparr>macd := a\<rparr>))
       \<and> (''Volatility'', ''0.000'') \<in> set (renderDetail (r\<lparr>volatility := Num 0\<rparr>))
       \<and> (''Volatility'', ''N/A'') \<in> set (renderDetail (r\<lparr>volatility := a\<rparr>))
       \<and> (''Sentiment Score'', ''0.00'') \<in> set (renderDetail (r\<lparr>sentiment_score := Num 0\<rparr>))
       \<and> (''Sentiment Score'', ''N/A'') \<in> set (renderDetail (r\<lparr>sentiment_score := a\<rparr>))
       \<and> (''Beta'', ''0.00'') \<in> set (renderDetail (r\<lparr>beta := Num 0\<rparr>))
       \<and> (''Beta'', ''N/A'') \<in> set (renderDetail (r\<lparr>beta := a\<rparr>))
       \<and> (''Total Score'', ''0.00'') \<in> set (renderDetail (r\<lparr>total_score := Num 0\<rparr>))
       \<and> (''Total Score'', ''N/A'') \<in> set (renderDetail (r\<lparr>total_score := a\<rparr>))
       \<and> compareStocks (r\<lparr>total_score := a\<rparr>) x = compareStocks (r\<lparr>total_score := Num 0\<rparr>) x
       \<and> compareStocks x (r\<lparr>total_score := a\<rparr>) = compareStocks x (r\<lparr>total_score := Num 0\<rparr>)"
proof -
  have none: "opt_toFixed a f = None" for f
    using assms by (cases a) simp_all
  have key: "or_zero a = 0"
    using assms by (rule or_zero_absent)
  show ?thesis
    by (simp add: renderDetail_def toFixed_zero_2 toFixed_zero_3 none compareStocks_def key)
qed

theorem detail_view_separates_absent_from_zero_witness:
  "absent Null
   \<and> (''Total Score'', ''0.00'') \<in> set (renderDetail (stock_of ''KO'' (Num 0)))
   \<and> (''Total Score'', ''N/A'') \<in> set (renderDetail (stock_of ''KO'' Null))
   \<and> compareStocks (stock_of ''KO'' Null) (stock_of ''PEP'' (Num 3))
       = compareStocks (stock_of ''KO'' (Num 0)) (stock_of ''PEP'' (Num 3))"
proof -
  have h: "absent Null" by simp
  have u0: "(stock_of ''KO'' Null)\<lparr>total_score := Num 0\<rparr> = stock_of ''KO'' (Num 0)"
    by (simp add: stock_of_def)
  have u1: "(stock_of ''KO'' Null)\<lparr>total_score := Null\<rparr> = stock_of ''KO'' Null"
    by (simp add: stock_of_def)
  from detail_view_separates_absent_from_zero [OF h, of "stock_of ''KO'' Null" "stock_of ''PEP'' (Num 3)"]
  show ?thesis unfolding u0 u1 using h by blast
qed

text \<open>
  Claim C1 as stated fails: a record whose score is \<open>0\<close> and the same record with the score
  absent get the same table row, the same mobile card and the same place in the order.
\<close>

theorem list_and_order_conflate_absent_and_zero:
  "stock_of ''KO'' (Num 0) \<noteq> stock_of ''KO'' Null
   \<and> renderRow (stock_of ''KO'' (Num 0)) = renderRow (stock_of ''KO'' Null)
   \<and> renderMobileCard (stock_of ''KO'' (Num 0)) = renderMobileCard (stock_of ''KO'' Null)
   \<and> map symbol (array_sort compareStocks
        [stock_of ''XOM'' (Num (- 1)), stock_of ''KO'' (Num 0), stock_of ''PEP'' (Num 3)])
       = [''PEP'', ''KO'', ''XOM'']
   \<and> map symbol (array_sort compareStocks
        [stock_of ''XOM'' (Num (- 1)), stock_of ''KO'' Null, stock_of ''PEP'' (Num 3)])
       = [''PEP'', ''KO'', ''XOM'']"
  by (simp add: renderRow_def renderMobileCard_def compareStocks_def stock_of_def)

section \<open>Scoring\<close>

lemma sum_list_map_filter:
  fixes h :: "'b \<Rightarrow> rat"
  shows "sum_list (map h (List.map_filter f xs))
       = sum_list (map (\<lambda>k. case f k of None \<Rightarrow> 0 | Some y \<Rightarrow> h y) xs)"
  by (induction xs) (simp_all add: List.map_filter_simps split: option.splits)

lemma sum_list_change_one:
  fixes g :: "'a \<Rightarrow> rat"
  assumes "distinct xs" and "k \<in> set xs" and "\<forall>x. x \<noteq> k \<longrightarrow> g' x = g x"
  shows "sum_list (map g' xs) + g k = sum_list (map g xs) + g' k"
  using assms
proof (induction xs)
  case Nil
  then show ?case by simp
next
  case (Cons x xs)
  show ?case
  proof (cases "x = k")
    case True
    with Cons.prems have "k \<notin> set xs" by simp
    with Cons.prems(3) have "\<forall>x\<in>set xs. g' x = g x" by auto
    then have "map g' xs = map g xs" by simp
    then have "sum_list (map g' xs) = sum_list (map g xs)" by (rule arg_cong)
    with True show ?thesis by simp
  next
    case False
    with Cons.prems have "sum_list (map g' xs) + g k = sum_list (map g xs) + g' k"
      by (intro Cons.IH) auto
    moreover from False Cons.prems(3) have "g' x = g x" by simp
    ultimately show ?thesis by simp
  qed
qed

lemma numerator_sum:
  "numerator p m r = sum_list (map (metric_part p m) scored_metrics)
      + sum_list (map (\<lambda>(w, x). w * x) (rating_terms p r))"
proof -
  have "sum_list (map (\<lambda>(w, x). w * x) (metric_terms p m))
      = sum_list (map (metric_part p m) scored_metrics)"
    unfolding metric_terms_def sum_list_map_filter metric_part_def
    by (rule arg_cong [where f = sum_list]) (auto split: option.splits)
  then show ?thesis by (simp add: numerator_def)
qed

lemma denominator_sum:
  "denominator p m r = sum_list (map (weight_part p m) scored_metrics)
      + sum_list (map fst (rating_terms p r))"
proof -
  have "sum_list (map fst (metric_terms p m))
      = sum_list (map (weight_part p m) scored_metrics)"
    unfolding metric_terms_def sum_list_map_filter weight_part_def
    by (rule arg_cong [where f = sum_list]) (auto split: option.splits)
  then show ?thesis by (simp add: denominator_def)
qed

lemma distinct_scored_metrics: "distinct scored_metrics"
  by (simp add: scored_metrics_def)

lemma rating_terms_zero: "rating_terms p zero_ratings = []"
  by (simp add: rating_terms_def net_bullishness_def rating_total_def zero_ratings_def)

lemma numerator_closed:
  "numerator p m r
     = sum_list (map (\<lambda>j. case m j of None \<Rightarrow> 0 | Some v \<Rightarrow> weight p j * sub_score p j v)
         scored_metrics)
       + (case net_bullishness r of None \<Rightarrow> 0 | Some b \<Rightarrow> ratings_weight p * b)"
proof -
  have "metric_part p m = (\<lambda>j. case m j of None \<Rightarrow> 0 | Some v \<Rightarrow> weight p j * sub_score p j v)"
    by (rule ext) (simp add: metric_part_def)
  then show ?thesis
    by (simp add: numerator_sum rating_terms_def split: option.splits)
qed

lemma denominator_closed:
  "denominator p m r
     = sum_list (map (\<lambda>j. case m j of None \<Rightarrow> 0 | Some v \<Rightarrow> weight p j) scored_metrics)
       + (case net_bullishness r of None \<Rightarrow> 0 | Some b \<Rightarrow> ratings_weight p)"
proof -
  have "weight_part p m = (\<lambda>j. case m j of None \<Rightarrow> 0 | Some v \<Rightarrow> weight p j)"
    by (rule ext) (simp add: weight_part_def)
  then show ?thesis
    by (simp add: denominator_sum rating_terms_def split: option.splits)
qed

lemma score_depends_on_scored_metrics:
  assumes "\<forall>j\<in>set scored_metrics. m j = m' j"
  shows "score p m r = score p m' r"
proof -
  have "map (\<lambda>j. case m j of None \<Rightarrow> 0 | Some v \<Rightarrow> weight p j * sub_score p j v) scored_metrics
      = map (\<lambda>j. case m' j of None \<Rightarrow> 0 | Some v \<Rightarrow> weight p j * sub_score p j v) scored_metrics"
    using assms by (intro map_cong) simp_all
  then have n: "numerator p m r = numerator p m' r"
    by (simp only: numerator_closed)
  have "map (\<lambda>j. case m j of None \<Rightarrow> 0 | Some v \<Rightarrow> weight p j) scored_metrics
      = map (\<lambda>j. case m' j of None \<Rightarrow> 0 | Some v \<Rightarrow> weight p j) scored_metrics"
    using assms by (intro map_cong) simp_all
  then have d: "denominator p m r = denominator p m' r"
    by (simp only: denominator_closed)
  show ?thesis by (simp add: score_def n d)
qed

text \<open>
  Claim C2.  For every set of present metrics, the empty one included, \<open>score\<close> has
  exactly one result, a rational number: the policy's default when the total weight is
  zero, so that no division by zero is made, and otherwise the quotient of the numerator
  by the denominator.  Both are sums over the scored metrics in which a present metric
  stands with its weight and weighted sub-score and an absent one with nothing; making a
  metric present adds exactly its term to each.  The result depends on nothing but the
  scored metrics and the ratings.  Absent is not the value \<open>0\<close>: the two give different
  scores.
\<close>

theorem score_excludes_absent_metrics:
  assumes "k \<in> set scored_metrics"
  shows "(\<exists>!q. score p m r = q)
       \<and> score p m r
           = (if denominator p m r = 0 then empty_score p
              else numerator p m r / denominator p m r)
       \<and> (denominator p m r \<noteq> 0 \<longrightarrow> score p m r * denominator p m r = numerator p m r)
       \<and> numerator p m r
           = sum_list (map (\<lambda>j. case m j of None \<Rightarrow> 0
                                  | Some v \<Rightarrow> weight p j * sub_score p j v) scored_metrics)
             + (case net_bullishness r of None \<Rightarrow> 0 | Some b \<Rightarrow> ratings_weight p * b)
       \<and> denominator p m r
           = sum_list (map (\<lambda>j. case m j of None \<Rightarrow> 0 | Some v \<Rightarrow> weight p j) scored_metrics)
             + (case net_bullishness r of None \<Rightarrow> 0 | Some b \<Rightarrow> ratings_weight p)
       \<and> numerator p (m(k := Some v)) r
           = numerator p (m(k := None)) r + weight p k * sub_score p k v
       \<and> denominator p (m(k := Some v)) r = denominator p (m(k := None)) r + weight p k
       \<and> ((\<forall>j\<in>set scored_metrics. m j = m' j) \<longrightarrow> score p m r = score p m' r)
       \<and> numerator p (\<lambda>k. None) zero_ratings = 0
       \<and> denominator p (\<lambda>k. None) zero_ratings = 0
       \<and> score p (\<lambda>k. None) zero_ratings = empty_score p
       \<and> score sample_policy (sample_metrics(PeRatio := None)) zero_ratings
           \<noteq> score sample_policy (sample_metrics(PeRatio := Some 0)) zero_ratings"
proof -
  have n: "sum_list (map (metric_part p (m(k := Some v))) scored_metrics)
             + metric_part p (m(k := None)) k
         = sum_list (map (metric_part p (m(k := None))) scored_metrics)
             + metric_part p (m(k := Some v)) k"
    by (rule sum_list_change_one [OF distinct_scored_metrics assms]) (simp add: metric_part_def)
  have d: "sum_list (map (weight_part p (m(k := Some v))) scored_metrics)
             + weight_part p (m(k := None)) k
         = sum_list (map (weight_part p (m(k := None))) scored_metrics)
             + weight_part p (m(k := Some v)) k"
    by (rule sum_list_change_one [OF distinct_scored_metrics assms]) (simp add: weight_part_def)
  have c0: "\<exists>!q. score p m r = q"
    by simp
  have c1: "score p m r
           = (if denominator p m r = 0 then empty_score p
              else numerator p m r / denominator p m r)"
    by (simp add: score_def)
  have c2: "denominator p m r \<noteq> 0 \<longrightarrow> score p m r * denominator p m r = numerator p m r"
    by (simp add: score_def)
  have c3: "numerator p (m(k := Some v)) r
           = numerator p (m(k := None)) r + weight p k * sub_score p k v"
    using n by (simp add: numerator_sum metric_part_def)
  have c4: "denominator p (m(k := Some v)) r = denominator p (m(k := None)) r + weight p k"
    using d by (simp add: denominator_sum weight_part_def)
  have c5: "(\<forall>j\<in>set scored_metrics. m j = m' j) \<longrightarrow> score p m r = score p m' r"
    by (blast intro: score_depends_on_scored_metrics)
  have "metric_part p (\<lambda>k. None) = (\<lambda>k. 0)"
    by (rule ext) (simp add: metric_part_def)
  then have c6: "numerator p (\<lambda>k. None) zero_ratings = 0"
    by (simp add: numerator_sum rating_terms_zero)
  have "weight_part p (\<lambda>k. None) = (\<lambda>k. 0)"
    by (rule ext) (simp add: weight_part_def)
  then have c7: "denominator p (\<lambda>k. None) zero_ratings = 0"
    by (simp add: denominator_sum rating_terms_zero)
  have c8: "score p (\<lambda>k. None) zero_ratings = empty_score p"
    by (simp add: score_def c7)
  have c9: "score sample_policy (sample_metrics(PeRatio := None)) zero_ratings
           \<noteq> score sample_policy (sample_metrics(PeRatio := Some 0)) zero_ratings"
    by (simp add: score_def numerator_sum denominator_sum metric_part_def weight_part_def
        rating_terms_zero scored_metrics_def sample_policy_def sample_metrics_def)
  from c0 c1 c2 numerator_closed [of p m r] denominator_closed [of p m r] c3 c4 c5 c6 c7 c8 c9
  show ?thesis by blast
qed

theorem score_excludes_absent_metrics_witness:
  "PeRatio \<in> set scored_metrics
   \<and> numerator sample_policy (sample_metrics(PeRatio := Some 30)) zero_ratings
       = numerator sample_policy (sample_metrics(PeRatio := None)) zero_ratings + 3 * (7 / 10)
   \<and> denominator sample_policy (sample_metrics(PeRatio := Some 30)) zero_ratings
       = denominator sample_policy (sample_metrics(PeRatio := None)) zero_ratings + 3
   \<and> denominator sample_policy sample_metrics zero_ratings \<noteq> 0
   \<and> score sample_policy sample_metrics zero_ratings
       * denominator sample_policy sample_metrics zero_ratings
       = numerator sample_policy sample_metrics zero_ratings
   \<and> score sample_policy sample_metrics zero_ratings
       = score sample_policy (sample_metrics(CurrentPrice := None)) zero_ratings"
proof -
  have h: "PeRatio \<in> set scored_metrics" by (simp add: scored_metrics_def)
  have w: "weight sample_policy PeRatio = 3" "sub_score sample_policy PeRatio 30 = 7 / 10"
    by (simp_all add: sample_policy_def)
  have dn: "denominator sample_policy sample_metrics zero_ratings \<noteq> 0"
    by (simp add: denominator_sum weight_part_def rating_terms_zero scored_metrics_def
        sample_policy_def sample_metrics_def)
  have ag: "\<forall>j\<in>set scored_metrics. sample_metrics j = (sample_metrics(CurrentPrice := None)) j"
    by (simp add: scored_metrics_def)
  from score_excludes_absent_metrics [OF h, of sample_policy sample_metrics zero_ratings 30
         "sample_metrics(CurrentPrice := None)"] h dn ag
  show ?thesis unfolding w by blast
qed

section \<open>The store keeps its symbols unique\<close>

lemma keys_store_upsert_present:
  "rec_symbol r \<in> set (map rec_symbol st) \<Longrightarrow> map rec_symbol (store_upsert r st) = map rec_symbol st"
  by (simp add: store_upsert_def comp_def cong: map_cong)

lemma distinct_store_add:
  "distinct (map rec_symbol st) \<Longrightarrow> distinct (map rec_symbol (snd (store_add s st)))"
  by (auto simp: store_add_def placeholder_def)

lemma distinct_store_remove:
  "distinct (map rec_symbol st) \<Longrightarrow> distinct (map rec_symbol (snd (store_remove s st)))"
  by (simp add: store_remove_def distinct_map_filter)

lemma distinct_store_upsert:
  assumes "distinct (map rec_symbol st)"
  shows "distinct (map rec_symbol (store_upsert r st))"
proof (cases "rec_symbol r \<in> set (map rec_symbol st)")
  case True
  with assms show ?thesis by (simp only: keys_store_upsert_present)
next
  case False
  with assms show ?thesis by (auto simp: store_upsert_def)
qed

lemma distinct_apply_op:
  "distinct (map rec_symbol st) \<Longrightarrow> distinct (map rec_symbol (apply_op c st))"
  by (cases c) (simp_all add: distinct_store_add distinct_store_remove distinct_store_upsert)

lemma distinct_run_ops:
  "distinct (map rec_symbol st) \<Longrightarrow> distinct (map rec_symbol (run_ops cs st))"
  by (induction cs arbitrary: st) (simp_all add: distinct_apply_op)

text \<open>
  Claim C3.  \<open>add\<close> of a symbol that is present fails with DuplicateSymbol and returns
  the store as it was, same size and same contents; and after any history of adds,
  removes and upserts, followed by any add, no two records share a symbol.
\<close>

theorem store_add_duplicate_rejected:
  assumes "s \<in> set (map rec_symbol st)"
  shows "store_add s st = (Some DuplicateSymbol, st)
       \<and> length (snd (store_add s st)) = length st
       \<and> distinct (map rec_symbol (snd (store_add s (run_ops cs []))))
       \<and> distinct (map rec_symbol (run_ops cs []))"
proof -
  have a: "store_add s st = (Some DuplicateSymbol, st)"
    using assms by (simp add: store_add_def)
  have d: "distinct (map rec_symbol (run_ops cs []))"
    by (rule distinct_run_ops) simp
  from a d distinct_store_add [OF d, of s] show ?thesis by simp
qed

theorem store_add_duplicate_rejected_witness:
  "''AAPL'' \<in> set (map rec_symbol sample_store)
   \<and> store_add ''AAPL'' sample_store = (Some DuplicateSymbol, sample_store)
   \<and> run_ops [Add ''AAPL'', Add ''ZZZZ'', Add ''AAPL''] [] = sample_store"
proof -
  have h: "''AAPL'' \<in> set (map rec_symbol sample_store)"
    by (simp add: sample_store_def placeholder_def)
  have r: "run_ops [Add ''AAPL'', Add ''ZZZZ'', Add ''AAPL''] [] = sample_store"
    by (simp add: sample_store_def store_add_def placeholder_def)
  from store_add_duplicate_rejected [OF h] h r show ?thesis by simp
qed

section \<open>Reanalysis of the whole portfolio\<close>

lemma keys_analyze_symbol:
  "map rec_symbol (snd (analyze_symbol env now s st)) = map rec_symbol st"
  by (simp add: analyze_symbol_def Let_def keys_store_upsert_present split: sum.splits)

lemma outcome_depends_on_keys:
  "map rec_symbol st1 = map rec_symbol st \<Longrightarrow>
     fst (analyze_symbol env now s st1) = fst (analyze_symbol env now s st)"
  by (simp add: analyze_symbol_def Let_def split: sum.splits)

lemma failure_keeps_store:
  "fst (analyze_symbol env now s st) = Failure e \<Longrightarrow> snd (analyze_symbol env now s st) = st"
  by (simp add: analyze_symbol_def Let_def split: sum.splits if_splits)

lemma filter_store_upsert_other:
  "rec_symbol r \<noteq> x \<Longrightarrow>
     filter (\<lambda>y. rec_symbol y = x) (store_upsert r st) = filter (\<lambda>y. rec_symbol y = x) st"
proof -
  assume ne: "rec_symbol r \<noteq> x"
  have "filter (\<lambda>y. rec_symbol y = x) (map (\<lambda>z. if rec_symbol z = rec_symbol r then r else z) st)
      = filter (\<lambda>y. rec_symbol y = x) st"
    using ne by (induction st) auto
  with ne show ?thesis by (simp add: store_upsert_def)
qed

lemma other_symbol_untouched:
  "s \<noteq> x \<Longrightarrow>
     filter (\<lambda>y. rec_symbol y = x) (snd (analyze_symbol env now s st))
       = filter (\<lambda>y. rec_symbol y = x) st"
  by (simp add: analyze_symbol_def Let_def filter_store_upsert_other split: sum.splits)

lemma results_reanalyze_symbols:
  "fst (reanalyze_symbols env now ss st) = map (\<lambda>s. (s, fst (analyze_symbol env now s st))) ss"
proof (induction ss arbitrary: st)
  case Nil
  show ?case by simp
next
  case (Cons s ss)
  have keys: "map rec_symbol (snd (analyze_symbol env now s st)) = map rec_symbol st"
    by (rule keys_analyze_symbol)
  have "fst (reanalyze_symbols env now ss (snd (analyze_symbol env now s st)))
      = map (\<lambda>t. (t, fst (analyze_symbol env now t (snd (analyze_symbol env now s st))))) ss"
    by (rule Cons.IH)
  also have "\<dots> = map (\<lambda>t. (t, fst (analyze_symbol env now t st))) ss"
    by (simp add: outcome_depends_on_keys [OF keys])
  finally show ?case
    by (simp add: case_prod_beta Let_def)
qed

text \<open>
  Claim C5.  \<open>reanalyze_all\<close> returns one outcome per symbol of the snapshot, in the
  snapshot's order; the outcome of a symbol is what its own pass yields, a success or a
  recorded failure, whatever happened to the symbols before it; and the run ends with the
  same symbols tracked.
\<close>

theorem reanalyze_all_one_outcome_per_symbol:
  "map fst (fst (reanalyze_all env now st)) = map rec_symbol st
   \<and> length (fst (reanalyze_all env now st)) = length st
   \<and> fst (reanalyze_all env now st)
       = map (\<lambda>s. (s, fst (analyze_symbol env now s st))) (map rec_symbol st)
   \<and> map rec_symbol (snd (reanalyze_all env now st)) = map rec_symbol st"
proof -
  have keys: "map rec_symbol (snd (reanalyze_symbols env now ss st')) = map rec_symbol st'" for ss st'
    by (induction ss arbitrary: st') (simp_all add: case_prod_beta Let_def keys_analyze_symbol)
  show ?thesis
    by (simp add: reanalyze_all_def store_list_def results_reanalyze_symbols keys comp_def)
qed

lemma failed_symbol_untouched:
  assumes "fst (analyze_symbol env now x st) = Failure e"
  shows "filter (\<lambda>y. rec_symbol y = x) (snd (reanalyze_symbols env now ss st))
       = filter (\<lambda>y. rec_symbol y = x) st"
  using assms
proof (induction ss arbitrary: st)
  case Nil
  show ?case by simp
next
  case (Cons s ss)
  let ?st1 = "snd (analyze_symbol env now s st)"
  have same: "fst (analyze_symbol env now x ?st1) = Failure e"
    using Cons.prems outcome_depends_on_keys [OF keys_analyze_symbol] by simp
  have step: "filter (\<lambda>y. rec_symbol y = x) ?st1 = filter (\<lambda>y. rec_symbol y = x) st"
  proof (cases "s = x")
    case True
    with Cons.prems show ?thesis by (simp add: failure_keeps_store)
  next
    case False
    then show ?thesis by (rule other_symbol_untouched)
  qed
  have "filter (\<lambda>y. rec_symbol y = x) (snd (reanalyze_symbols env now ss ?st1))
      = filter (\<lambda>y. rec_symbol y = x) ?st1"
    using same by (rule Cons.IH)
  with step show ?case by (simp add: case_prod_beta Let_def)
qed

lemma stamped_filter:
  "stamped x sc now st =
     list_all (\<lambda>y. rec_total_score y = Some sc \<and> last_analyzed_at y = Some now)
       (filter (\<lambda>y. rec_symbol y = x) st)"
  by (induction st) (simp_all add: stamped_def)

lemma success_stamps:
  "fst (analyze_symbol env now x st) = Success sc \<Longrightarrow>
     stamped x sc now (snd (analyze_symbol env now x st))"
  by (auto simp: analyze_symbol_def Let_def stamped_def store_upsert_def list_all_iff
           split: sum.splits if_splits)

lemma stamped_preserved:
  assumes "fst (analyze_symbol env now x st) = Success sc" and "stamped x sc now st"
  shows "stamped x sc now (snd (analyze_symbol env now s st))"
proof (cases "s = x")
  case True
  with assms(1) show ?thesis by (simp add: success_stamps)
next
  case False
  with assms(2) show ?thesis by (simp add: stamped_filter other_symbol_untouched)
qed

lemma stamped_reanalyze_symbols:
  assumes "fst (analyze_symbol env now x st) = Success sc" and "stamped x sc now st"
  shows "stamped x sc now (snd (reanalyze_symbols env now ss st))"
  using assms
proof (induction ss arbitrary: st)
  case Nil
  then show ?case by simp
next
  case (Cons s ss)
  let ?st1 = "snd (analyze_symbol env now s st)"
  have same: "fst (analyze_symbol env now x ?st1) = Success sc"
    using Cons.prems(1) outcome_depends_on_keys [OF keys_analyze_symbol] by simp
  have "stamped x sc now ?st1"
    using Cons.prems by (rule stamped_preserved)
  with same have "stamped x sc now (snd (reanalyze_symbols env now ss ?st1))"
    by (rule Cons.IH)
  then show ?case by (simp add: case_prod_beta Let_def)
qed

lemma succeeded_symbol_stamped:
  assumes "fst (analyze_symbol env now x st) = Success sc" and "x \<in> set ss"
  shows "stamped x sc now (snd (reanalyze_symbols env now ss st))"
  using assms
proof (induction ss arbitrary: st)
  case Nil
  then show ?case by simp
next
  case (Cons s ss)
  let ?st1 = "snd (analyze_symbol env now s st)"
  have same: "fst (analyze_symbol env now x ?st1) = Success sc"
    using Cons.prems(1) outcome_depends_on_keys [OF keys_analyze_symbol] by simp
  have "stamped x sc now (snd (reanalyze_symbols env now ss ?st1))"
  proof (cases "s = x")
    case True
    with Cons.prems(1) have "stamped x sc now ?st1" by (simp add: success_stamps)
    with same show ?thesis by (rule stamped_reanalyze_symbols)
  next
    case False
    with Cons.prems(2) have "x \<in> set ss" by simp
    with same show ?thesis by (rule Cons.IH)
  qed
  then show ?case by (simp add: case_prod_beta Let_def)
qed

text \<open>
  Claim C6.  After a batch, the records of a symbol whose pass failed (an unknown symbol,
  retries used up, a refused write) are exactly what they were before: score, metrics and
  timestamp.  The records of a symbol whose pass succeeded carry the new score and the
  timestamp of the run.
\<close>

theorem failed_pass_keeps_record:
  "((x, Failure e) \<in> set (fst (reanalyze_all env now st)) \<longrightarrow>
      filter (\<lambda>y. rec_symbol y = x) (snd (reanalyze_all env now st))
        = filter (\<lambda>y. rec_symbol y = x) st)
   \<and> ((x, Success sc) \<in> set (fst (reanalyze_all env now st)) \<longrightarrow>
      list_all (\<lambda>y. rec_total_score y = Some sc \<and> last_analyzed_at y = Some now)
        (filter (\<lambda>y. rec_symbol y = x) (snd (reanalyze_all env now st))))"
proof (intro conjI impI)
  assume "(x, Failure e) \<in> set (fst (reanalyze_all env now st))"
  then have "fst (analyze_symbol env now x st) = Failure e"
    by (auto simp: reanalyze_all_def store_list_def results_reanalyze_symbols)
  then show "filter (\<lambda>y. rec_symbol y = x) (snd (reanalyze_all env now st))
        = filter (\<lambda>y. rec_symbol y = x) st"
    unfolding reanalyze_all_def by (rule failed_symbol_untouched)
next
  assume "(x, Success sc) \<in> set (fst (reanalyze_all env now st))"
  then have "fst (analyze_symbol env now x st) = Success sc"
    and "x \<in> set (map rec_symbol (store_list st))"
    by (auto simp: reanalyze_all_def store_list_def results_reanalyze_symbols)
  then have "stamped x sc now (snd (reanalyze_all env now st))"
    unfolding reanalyze_all_def by (rule succeeded_symbol_stamped)
  then show "list_all (\<lambda>y. rec_total_score y = Some sc \<and> last_analyzed_at y = Some now)
        (filter (\<lambda>y. rec_symbol y = x) (snd (reanalyze_all env now st)))"
    by (simp add: stamped_filter)
qed

lemma sample_batch:
  "fst (reanalyze_all sample_env 7 sample_store)
     = [(''AAPL'', Success (11 / 20)), (''ZZZZ'', Failure SymbolNotFound)]"
  by code_simp

lemma sample_zzzz: "filter (\<lambda>y. rec_symbol y = ''ZZZZ'') sample_store = [placeholder ''ZZZZ'']"
  by (simp add: sample_store_def placeholder_def)

theorem failed_pass_keeps_record_witness:
  "(''ZZZZ'', Failure SymbolNotFound) \<in> set (fst (reanalyze_all sample_env 7 sample_store))
   \<and> filter (\<lambda>y. rec_symbol y = ''ZZZZ'') (snd (reanalyze_all sample_env 7 sample_store))
       = [placeholder ''ZZZZ'']
   \<and> (''AAPL'', Success (11 / 20)) \<in> set (fst (reanalyze_all sample_env 7 sample_store))
   \<and> list_all (\<lambda>y. rec_total_score y = Some (11 / 20) \<and> last_analyzed_at y = Some 7)
        (filter (\<lambda>y. rec_symbol y = ''AAPL'') (snd (reanalyze_all sample_env 7 sample_store)))"
proof -
  have f: "(''ZZZZ'', Failure SymbolNotFound) \<in> set (fst (reanalyze_all sample_env 7 sample_store))"
    by (simp add: sample_batch)
  have s: "(''AAPL'', Success (11 / 20)) \<in> set (fst (reanalyze_all sample_env 7 sample_store))"
    by (simp add: sample_batch)
  from failed_pass_keeps_record [of "''ZZZZ''" SymbolNotFound sample_env 7 sample_store]
       failed_pass_keeps_record [of "''AAPL''" _ sample_env 7 sample_store "11 / 20"]
       f s sample_zzzz
  show ?thesis by simp
qed

end
